theory Spec2Isabelle
  imports Main "HOL-Library.Word"
begin

section \<open>Data model of \<^verbatim>\<open>src/lib/TAWebsocket.ts\<close>\<close>

text \<open>
  The class \<^verbatim>\<open>TAWebsocket\<close> is embedded as a record of its fields together with the
  chronological list of the calls it makes into its collaborators (the transport, the
  transmit function, the timers, the console and the \<^verbatim>\<open>Client\<close> state store). Every
  method and every event handler is a function from the state before to the state after.
\<close>

type_synonym bytes = "8 word list"

datatype client_types = Player | Coordinator | WebsocketConnection

record user =
  guid :: string
  name :: string
  client_type :: client_types

record characteristic =
  serialized_name :: string
  difficulties :: "int list"

record preview_beatmap_level =
  level_id :: string
  level_name :: string
  characteristics :: "characteristic list"
  loaded :: bool

record ta_match =
  match_guid :: string
  associated_users :: "string list"
  leader :: string
  selected_level :: "preview_beatmap_level option"
  selected_characteristic :: "characteristic option"
  selected_difficulty :: int
  start_time :: string

record server_settings =
  server_name :: string

record ta_state =
  users :: "user list"
  matches :: "ta_match list"
  server_settings :: "server_settings option"

record connect_response =
  state :: ta_state
  self_guid :: string

datatype response_type = Fail | Success

record response =
  resp_type :: response_type
  connect :: "connect_response option"

datatype request = Connect user nat "string option"

datatype event =
    MatchCreatedEvent ta_match
  | MatchUpdatedEvent ta_match
  | MatchDeletedEvent ta_match
  | UserLeftEvent user

datatype command = LoadSong string | ReturnToMenu bool

text \<open>
  \<^verbatim>\<open>Packets.Packet\<close>: a correlation id, the sender (\<^verbatim>\<open>from\<close>) and at most one populated
  variant. A packet built with \<^verbatim>\<open>new Packets.Packet({event})\<close> has the empty string as id
  and as sender.
\<close>

datatype packet = Packet (packet_id: string) (packet_from: string) (payload: payload)
and payload =
    NoPayload
  | Request request
  | Response response
  | Event event
  | Command command
  | ForwardingPacket (forward_to: "string list") (forwarded: packet)

datatype error = Error string

datatype readyState = CONNECTING | OPEN | CLOSING | CLOSED

record config =
  autoReconnect :: bool
  autoReconnectInterval :: int
  autoReconnectMaxRetries :: int
  logging :: bool
  handshakeTimeout :: int
  autoInit :: bool
  cfg_sendToSocket :: "nat option"
  connectionMode :: client_types

text \<open>\<^verbatim>\<open>Partial<Config>\<close>: every key may be absent.\<close>

record config_options =
  opt_autoReconnect :: "bool option"
  opt_autoReconnectInterval :: "int option"
  opt_autoReconnectMaxRetries :: "int option"
  opt_logging :: "bool option"
  opt_handshakeTimeout :: "int option"
  opt_autoInit :: "bool option"
  opt_sendToSocket :: "nat option"
  opt_connectionMode :: "client_types option"

text \<open>
  The function stored in the field \<^verbatim>\<open>sendToSocket\<close>: the initial \<^verbatim>\<open>() => null\<close>, the
  default \<^verbatim>\<open>(data) => this.ws?.send(data)\<close>, or the caller's function from the
  configuration (named by a number).
\<close>

datatype transmit = NullSend | SocketSend | ConfigSend nat

text \<open>The callbacks handed to \<^verbatim>\<open>setTimeout\<close>; \<open>UpdateMatchLater r\<close> holds a reference to a match object.\<close>

datatype timer = ConnectTimeout | Reconnect | UpdateMatchLater nat

text \<open>
  The calls made into the collaborators, in the order they are made. \<open>Transmit f d\<close>
  is the call \<^verbatim>\<open>this.sendToSocket(d)\<close> with \<open>f\<close> the function installed at that moment;
  whether that call returns or throws is \<open>sendToSocket_throws\<close> below. \<open>SetTimeout t ms\<close> is
  the call \<^verbatim>\<open>setTimeout(t, ms)\<close>; the callback runs when the timer fires (\<open>timer_fired\<close>
  below), not at the call.
\<close>

datatype effect =
    NewSocket string
  | SocketClose
  | Transmit transmit bytes
  | SetTimeout timer int
  | ClearTimeout timer
  | ConsoleError error
  | ConsoleWarn string
  | ClientInit connect_response
  | ClientReset
  | ClientHandlePacket packet

record client =
  Self :: user
  State :: "ta_state option"
  isConnected :: bool

text \<open>
  The collaborators whose code is outside the class: the codec
  (\<^verbatim>\<open>serializeBinary\<close>, \<^verbatim>\<open>deserializeBinary\<close>, which throws on a malformed buffer),
  the state store's generic \<^verbatim>\<open>handlePacket\<close> and the generator \<^verbatim>\<open>uuidv4\<close> (the n-th
  identifier it hands out).
\<close>

record env =
  serializeBinary :: "packet \<Rightarrow> bytes"
  deserializeBinary :: "bytes \<Rightarrow> error + packet"
  client_handlePacket :: "packet \<Rightarrow> client \<Rightarrow> client"
  uuidv4 :: "nat \<Rightarrow> string"

record ta =
  url :: string
  password :: "string option"
  ws_name :: string
  ws :: "readyState option"
  taClient :: client
  config :: config
  reconnectAttempts :: int
  sendToSocket :: transmit
  objects :: "nat \<Rightarrow> ta_match"
  uuid_seed :: nat
  trace :: "effect list"

datatype msg_data = ArrayBuffer bytes | Text string

section \<open>The state store \<^verbatim>\<open>Client\<close>\<close>

text \<open>
  Modelled from the spec: the class \<^verbatim>\<open>Client\<close> of \<^verbatim>\<open>./client\<close> is not among the sources.
  Its constructor keeps Self and starts disconnected with no state.
\<close>

definition Client :: "user \<Rightarrow> client" where
  "Client u = \<lparr>Self = u, State = None, isConnected = False\<rparr>"

text \<open>
  Modelled from the spec: \<^verbatim>\<open>Client.init\<close> overwrites the mirrored state wholesale with the
  response payload and marks the connection established.
\<close>

definition Client_init :: "connect_response \<Rightarrow> client \<Rightarrow> client" where
  "Client_init cr c = c\<lparr>State := Some (state cr), isConnected := True\<rparr>"

text \<open>
  Modelled from the spec: \<^verbatim>\<open>Client.reset\<close> empties the mirrored state and marks the
  connection as not established.
\<close>

definition Client_reset :: "client \<Rightarrow> client" where
  "Client_reset c = c\<lparr>State := None, isConnected := False\<rparr>"

section \<open>The methods of \<^verbatim>\<open>TAWebsocket\<close>\<close>

definition emit :: "effect \<Rightarrow> ta \<Rightarrow> ta" where
  "emit e s = s\<lparr>trace := trace s @ [e]\<rparr>"

definition loadConfig :: "config_options \<Rightarrow> config" where
  "loadConfig opts =
    \<lparr>autoReconnect = (case opt_autoReconnect opts of None \<Rightarrow> True | Some v \<Rightarrow> v),
     autoReconnectInterval = (case opt_autoReconnectInterval opts of None \<Rightarrow> 10000 | Some v \<Rightarrow> v),
     autoReconnectMaxRetries = (case opt_autoReconnectMaxRetries opts of None \<Rightarrow> - 1 | Some v \<Rightarrow> v),
     logging = (case opt_logging opts of None \<Rightarrow> False | Some v \<Rightarrow> v),
     handshakeTimeout = (case opt_handshakeTimeout opts of None \<Rightarrow> 0 | Some v \<Rightarrow> v),
     autoInit = (case opt_autoInit opts of None \<Rightarrow> True | Some v \<Rightarrow> v),
     cfg_sendToSocket = opt_sendToSocket opts,
     connectionMode = (case opt_connectionMode opts of None \<Rightarrow> WebsocketConnection | Some v \<Rightarrow> v)\<rparr>"

text \<open>
  \<^verbatim>\<open>init\<close>: a new transport (connecting) replaces the handle and the handshake timer is
  started; the timer is started whatever \<^verbatim>\<open>handshakeTimeout\<close> is. The four handlers it
  registers are the functions \<open>onopen\<close>, \<open>onmessage\<close>, \<open>onclose\<close> and \<open>onerror\<close> below.
\<close>

definition init :: "ta \<Rightarrow> ta" where
  "init s =
    emit (SetTimeout ConnectTimeout (handshakeTimeout (config s)))
      (emit (NewSocket (url s)) (s\<lparr>ws := Some CONNECTING\<rparr>))"

text \<open>The callback of the handshake timer.\<close>

definition connectTimeout :: "ta \<Rightarrow> ta" where
  "connectTimeout s =
    (if ws s \<noteq> Some OPEN \<and> handshakeTimeout (config s) > 0
     then init ((case ws s of None \<Rightarrow> s | Some r \<Rightarrow> emit SocketClose s)\<lparr>ws := None\<rparr>)
     else s)"

text \<open>
  What the call \<^verbatim>\<open>this.sendToSocket(data)\<close> does: it returns (\<open>None\<close>) or throws. The default
  function is \<^verbatim>\<open>(data) => this.ws?.send(data)\<close>: without a handle nothing is called, and the
  \<^verbatim>\<open>send\<close> of the transport library (\<^verbatim>\<open>w3cwebsocket\<close>, imported on line 7, not among the
  sources) throws unless \<^verbatim>\<open>readyState\<close> is OPEN. The initial \<^verbatim>\<open>() => null\<close> returns; the
  caller's own function is taken to return.
\<close>

definition sendToSocket_throws :: "ta \<Rightarrow> error option" where
  "sendToSocket_throws s =
    (case sendToSocket s of
       NullSend \<Rightarrow> None
     | ConfigSend f \<Rightarrow> None
     | SocketSend \<Rightarrow>
         (case ws s of
            None \<Rightarrow> None
          | Some r \<Rightarrow>
              if r = OPEN then None
              else Some (Error ''cannot call send() while not connected'')))"

text \<open>
  \<^verbatim>\<open>sendPacket\<close>, and \<^verbatim>\<open>sendEvent\<close>, \<^verbatim>\<open>forwardPacket\<close>, \<^verbatim>\<open>ClientConnect\<close>, \<^verbatim>\<open>updateMatch\<close>,
  \<^verbatim>\<open>closeMatch\<close> and \<^verbatim>\<open>returnToMenu\<close>, whose last statement is that send: the function gives
  the state after the call, whether the transmit function returned or threw (the call has
  been made either way); \<open>sendToSocket_throws\<close> of the state before tells which. A method
  with statements after the send branches on it.
\<close>

definition sendPacket :: "env \<Rightarrow> packet \<Rightarrow> ta \<Rightarrow> ta" where
  "sendPacket E p s =
    (let stamped = Packet (packet_id p) (guid (Self (taClient s))) (payload p)
     in emit (Transmit (sendToSocket s) (serializeBinary E stamped)) s)"

definition sendEvent :: "env \<Rightarrow> event \<Rightarrow> ta \<Rightarrow> ta" where
  "sendEvent E ev s = sendPacket E (Packet [] [] (Event ev)) s"

definition forwardPacket :: "env \<Rightarrow> string list \<Rightarrow> packet \<Rightarrow> ta \<Rightarrow> ta" where
  "forwardPacket E ids p s = sendPacket E (Packet [] [] (ForwardingPacket ids p)) s"

definition ClientConnect :: "env \<Rightarrow> ta \<Rightarrow> ta" where
  "ClientConnect E s =
    (let packetData = Connect (Self (taClient s)) 66 (password s);
         p = Packet (uuidv4 E (uuid_seed s)) (guid (Self (taClient s))) (Request packetData)
     in sendPacket E p (s\<lparr>uuid_seed := Suc (uuid_seed s)\<rparr>))"

definition handlePacket :: "env \<Rightarrow> packet \<Rightarrow> ta \<Rightarrow> ta" where
  "handlePacket E p s =
    (let s1 =
       (case payload p of
          Response r \<Rightarrow>
            (case connect r of
               Some connectResponse \<Rightarrow>
                 if resp_type r = Success
                 then (if \<not> isConnected (taClient s) \<and> self_guid connectResponse \<noteq> []
                       then emit (ClientInit connectResponse)
                              (s\<lparr>taClient := Client_init connectResponse (taClient s)\<rparr>)
                       else s)
                 else s
             | None \<Rightarrow> s)
        | _ \<Rightarrow> s)
     in emit (ClientHandlePacket p)
          (s1\<lparr>taClient := client_handlePacket E p (taClient s1)\<rparr>))"

text \<open>The handler \<^verbatim>\<open>ws.onopen\<close>.\<close>

definition onopen :: "env \<Rightarrow> ta \<Rightarrow> ta" where
  "onopen E s = ClientConnect E (emit (ClearTimeout ConnectTimeout) s)"

text \<open>
  The handler \<^verbatim>\<open>ws.onmessage\<close>. \<open>Inl\<close> would be an exception leaving the handler; the
  \<^verbatim>\<open>try\<close> block is the inner case distinction, the \<^verbatim>\<open>catch\<close> its \<open>Inl\<close> branch.
\<close>

definition onmessage :: "env \<Rightarrow> msg_data \<Rightarrow> ta \<Rightarrow> error + ta" where
  "onmessage E d s =
    (case d of
       ArrayBuffer b \<Rightarrow>
         (case (case deserializeBinary E b of
                  Inl err \<Rightarrow> Inl err
                | Inr p \<Rightarrow> Inr (handlePacket E p s)) of
            Inl err \<Rightarrow> Inr (emit (ConsoleError err) s)
          | Inr s' \<Rightarrow> Inr s')
     | Text t \<Rightarrow>
         Inr (if logging (config s) then emit (ConsoleWarn t) s else s))"

text \<open>The handler \<^verbatim>\<open>ws.onclose\<close>.\<close>

definition onclose :: "ta \<Rightarrow> ta" where
  "onclose s =
    (let s0 =
       (if logging (config s) then
          (case State (taClient s) of
             Some st \<Rightarrow>
               (case server_settings st of
                  Some ss \<Rightarrow>
                    if server_name ss \<noteq> []
                    then emit (ConsoleError (Error (''Socket Closed - '' @ server_name ss))) s
                    else s
                | None \<Rightarrow> s)
           | None \<Rightarrow> s)
        else s);
         s1 = emit ClientReset (s0\<lparr>taClient := Client_reset (taClient s0)\<rparr>)
     in if autoReconnect (config s1) \<and> reconnectAttempts s1 < autoReconnectMaxRetries (config s1)
        then (let s2 = emit (SetTimeout Reconnect (autoReconnectInterval (config s1))) s1
              in if reconnectAttempts s2 \<noteq> - 1
                 then s2\<lparr>reconnectAttempts := reconnectAttempts s2 + 1\<rparr>
                 else s2)
        else s1)"

text \<open>The handler \<^verbatim>\<open>ws.onerror\<close>.\<close>

definition onerror :: "error \<Rightarrow> ta \<Rightarrow> ta" where
  "onerror err s = emit (ConsoleError err) s"

text \<open>
  \<^verbatim>\<open>createMatch\<close>: \<open>Inr\<close> is the returned match id, \<open>Inl\<close> the exception of the send, which
  leaves \<^verbatim>\<open>sendPacket\<close>, \<^verbatim>\<open>sendEvent\<close> and \<^verbatim>\<open>createMatch\<close> before the \<^verbatim>\<open>return\<close>.
\<close>

definition createMatch :: "env \<Rightarrow> user list \<Rightarrow> ta \<Rightarrow> (error + string) \<times> ta" where
  "createMatch E players s =
    (let m = \<lparr>match_guid = uuidv4 E (uuid_seed s),
              associated_users = map guid players @ [guid (Self (taClient s))],
              leader = guid (Self (taClient s)),
              selected_level = None,
              selected_characteristic = None,
              selected_difficulty = 0,
              start_time = []\<rparr>;
         s0 = s\<lparr>uuid_seed := Suc (uuid_seed s)\<rparr>;
         s1 = sendEvent E (MatchCreatedEvent m) s0
     in (case sendToSocket_throws s0 of
           Some err \<Rightarrow> (Inl err, s1)
         | None \<Rightarrow> (Inr (match_guid m), s1)))"

definition updateMatch :: "env \<Rightarrow> ta_match \<Rightarrow> ta \<Rightarrow> ta" where
  "updateMatch E m s = sendEvent E (MatchUpdatedEvent m) s"

definition closeMatch :: "env \<Rightarrow> ta_match \<Rightarrow> ta \<Rightarrow> ta" where
  "closeMatch E m s = sendEvent E (MatchDeletedEvent m) s"

definition getPlayers :: "ta_match \<Rightarrow> ta \<Rightarrow> user list" where
  "getPlayers m s =
    (case State (taClient s) of
       Some st \<Rightarrow> filter (\<lambda>x. guid x \<in> set (associated_users m) \<and> client_type x = Player) (users st)
     | None \<Rightarrow> [])"

text \<open>
  \<^verbatim>\<open>loadSong\<close> works on the caller's match object: \<open>r\<close> is its reference, the object store
  \<open>objects\<close> holds its fields, and the timer callback keeps the reference, not a copy.
  The method is \<^verbatim>\<open>async\<close> and awaits nothing, so its body runs at the call. \<open>Inl\<close> is the
  exception of the forward: it ends the body before \<^verbatim>\<open>setTimeout\<close> and rejects the
  returned promise.
\<close>

definition loadSong ::
  "env \<Rightarrow> string \<Rightarrow> string \<Rightarrow> int \<Rightarrow> nat \<Rightarrow> ta \<Rightarrow> (error + unit) \<times> ta" where
  "loadSong E songName hash difficulty r s =
    (let std = \<lparr>serialized_name = ''Standard'', difficulties = [difficulty]\<rparr>;
         matchMap = \<lparr>level_id = ''custom_level_'' @ hash,
                     level_name = songName,
                     characteristics = [std],
                     loaded = True\<rparr>;
         taMatch = (objects s r)\<lparr>selected_level := Some matchMap,
                                 selected_characteristic := Some std,
                                 selected_difficulty := difficulty\<rparr>;
         s1 = s\<lparr>objects := (objects s)(r := taMatch)\<rparr>;
         playerIds = map guid (getPlayers taMatch s1);
         s2 = forwardPacket E playerIds
                (Packet [] []
                   (Command (LoadSong (case selected_level taMatch of
                                         Some l \<Rightarrow> level_id l
                                       | None \<Rightarrow> []))))
                s1
     in (case sendToSocket_throws s1 of
           Some err \<Rightarrow> (Inl err, s2)
         | None \<Rightarrow> (Inr (), emit (SetTimeout (UpdateMatchLater r) 500) s2)))"

definition returnToMenu :: "env \<Rightarrow> string list \<Rightarrow> ta \<Rightarrow> ta" where
  "returnToMenu E ids s = forwardPacket E ids (Packet [] [] (Command (ReturnToMenu True))) s"

text \<open>The call \<^verbatim>\<open>this.ws.close()\<close>: the transport starts its closing handshake.\<close>

definition socket_close :: "ta \<Rightarrow> ta" where
  "socket_close s = emit SocketClose (s\<lparr>ws := Some CLOSING\<rparr>)"

text \<open>
  \<^verbatim>\<open>close\<close> sends only when the socket is OPEN, where the send returns
  (\<open>open_socket_send_returns\<close> below), so \<^verbatim>\<open>this.ws.close()\<close> is always reached.
\<close>

definition close :: "env \<Rightarrow> ta \<Rightarrow> ta" where
  "close E s =
    (if ws s = Some OPEN
     then socket_close (sendEvent E (UserLeftEvent (Self (taClient s))) s)
     else s)"

text \<open>
  The constructor. \<open>heap\<close> is the caller's object store. The field \<^verbatim>\<open>sendToSocket\<close> is
  assigned after the optional call of \<^verbatim>\<open>init\<close>.
\<close>

definition TAWebsocket ::
  "env \<Rightarrow> string \<Rightarrow> string \<Rightarrow> string option \<Rightarrow> config_options \<Rightarrow> (nat \<Rightarrow> ta_match) \<Rightarrow> ta" where
  "TAWebsocket E u n pw opts heap =
    (let cfg = loadConfig opts;
         s0 = \<lparr>url = u, password = pw, ws_name = n, ws = None,
               taClient = Client \<lparr>guid = uuidv4 E 0, name = n, client_type = connectionMode cfg\<rparr>,
               config = cfg, reconnectAttempts = - 1, sendToSocket = NullSend,
               objects = heap, uuid_seed = 1, trace = []\<rparr>;
         s1 = (if autoInit cfg then init s0 else s0)
     in s1\<lparr>sendToSocket :=
              (case cfg_sendToSocket cfg of None \<Rightarrow> SocketSend | Some f \<Rightarrow> ConfigSend f)\<rparr>)"

section \<open>Events\<close>

text \<open>
  What the environment does to a client: the transport reports open, a message, close
  or an error (setting \<^verbatim>\<open>readyState\<close> before it calls the handler), a timer fires, or
  the caller invokes a method. The methods \<^verbatim>\<open>playSong\<close> and \<^verbatim>\<open>sendMessage\<close>, which build
  further commands, send them through \<^verbatim>\<open>forwardPacket\<close> and touch no field of the class,
  are not part of this development.
\<close>

datatype input =
    TransportOpen
  | TransportMessage msg_data
  | TransportClose
  | TransportError error
  | TimerFired timer
  | CallClose
  | CallCreateMatch "user list"
  | CallUpdateMatch nat
  | CallCloseMatch nat
  | CallLoadSong string string int nat
  | CallReturnToMenu "string list"
  | CallSendPacket packet
  | CallHandlePacket packet

definition timer_fired :: "env \<Rightarrow> timer \<Rightarrow> ta \<Rightarrow> ta" where
  "timer_fired E t s =
    (case t of
       ConnectTimeout \<Rightarrow> connectTimeout s
     | Reconnect \<Rightarrow> init s
     | UpdateMatchLater r \<Rightarrow> updateMatch E (objects s r) s)"

definition transport_closed :: "ta \<Rightarrow> ta" where
  "transport_closed s = onclose (s\<lparr>ws := map_option (\<lambda>_. CLOSED) (ws s)\<rparr>)"

definition transport_opened :: "env \<Rightarrow> ta \<Rightarrow> ta" where
  "transport_opened E s = onopen E (s\<lparr>ws := map_option (\<lambda>_. OPEN) (ws s)\<rparr>)"

fun step :: "env \<Rightarrow> ta \<Rightarrow> input \<Rightarrow> ta" where
  "step E s TransportOpen = transport_opened E s"
| "step E s (TransportMessage d) = (case onmessage E d s of Inl err \<Rightarrow> s | Inr s' \<Rightarrow> s')"
| "step E s TransportClose = transport_closed s"
| "step E s (TransportError err) = onerror err s"
| "step E s (TimerFired t) = timer_fired E t s"
| "step E s CallClose = close E s"
| "step E s (CallCreateMatch players) = snd (createMatch E players s)"
| "step E s (CallUpdateMatch r) = updateMatch E (objects s r) s"
| "step E s (CallCloseMatch r) = closeMatch E (objects s r) s"
| "step E s (CallLoadSong songName hash difficulty r) = snd (loadSong E songName hash difficulty r s)"
| "step E s (CallReturnToMenu ids) = returnToMenu E ids s"
| "step E s (CallSendPacket p) = sendPacket E p s"
| "step E s (CallHandlePacket p) = handlePacket E p s"

definition run :: "env \<Rightarrow> ta \<Rightarrow> input list \<Rightarrow> ta" where
  "run E s ins = foldl (step E) s ins"

section \<open>Sample collaborators and clients\<close>

text \<open>
  Concrete collaborators on which the theorems below are evaluated: a codec that encodes
  a packet as the length of its sender followed by the tag of its variant (and, for a
  forwarding packet, the number of recipients and the inner packet) and rejects the empty
  buffer, a state store whose generic handler leaves the store as it is, and identifiers
  \<open>u\<close>, \<open>uu\<close>, \<open>uuu\<close>, ...
\<close>

primrec sample_encode :: "packet \<Rightarrow> bytes"
  and sample_encode_payload :: "payload \<Rightarrow> bytes" where
  "sample_encode (Packet i f pl) = of_nat (length f) # sample_encode_payload pl"
| "sample_encode_payload NoPayload = [0]"
| "sample_encode_payload (Request q) = [1]"
| "sample_encode_payload (Response r) = [2]"
| "sample_encode_payload (Event ev) =
     [case ev of MatchCreatedEvent m \<Rightarrow> 3 | MatchUpdatedEvent m \<Rightarrow> 4
               | MatchDeletedEvent m \<Rightarrow> 5 | UserLeftEvent u \<Rightarrow> 6]"
| "sample_encode_payload (Command c) = [7]"
| "sample_encode_payload (ForwardingPacket ids p) = 8 # of_nat (length ids) # sample_encode p"

definition sample_env :: env where
  "sample_env =
    \<lparr>serializeBinary = sample_encode,
     deserializeBinary =
       (\<lambda>b. case b of [] \<Rightarrow> Inl (Error ''empty buffer'') | x # xs \<Rightarrow> Inr (Packet [] [] NoPayload)),
     client_handlePacket = (\<lambda>p c. c),
     uuidv4 = (\<lambda>n. replicate (Suc n) CHR ''u'')\<rparr>"

definition no_options :: config_options where
  "no_options =
    \<lparr>opt_autoReconnect = None, opt_autoReconnectInterval = None,
     opt_autoReconnectMaxRetries = None, opt_logging = None, opt_handshakeTimeout = None,
     opt_autoInit = None, opt_sendToSocket = None, opt_connectionMode = None\<rparr>"

definition sample_match :: ta_match where
  "sample_match =
    \<lparr>match_guid = ''m1'', associated_users = [''alice'', ''bob''], leader = ''u'',
     selected_level = None, selected_characteristic = None, selected_difficulty = 0,
     start_time = []\<rparr>"

definition sample_users :: "user list" where
  "sample_users =
    [\<lparr>guid = ''alice'', name = ''Alice'', client_type = Player\<rparr>,
     \<lparr>guid = ''bob'', name = ''Bob'', client_type = Coordinator\<rparr>,
     \<lparr>guid = ''carol'', name = ''Carol'', client_type = Player\<rparr>]"

definition sample_connect_response :: connect_response where
  "sample_connect_response =
    \<lparr>state = \<lparr>users = sample_users, matches = [], server_settings = None\<rparr>, self_guid = ''u''\<rparr>"

definition sample_connect_packet :: packet where
  "sample_connect_packet =
    Packet ''c1'' ''server'' (Response \<lparr>resp_type = Success, connect = Some sample_connect_response\<rparr>)"

text \<open>A client built with the default configuration, and one with \<^verbatim>\<open>autoReconnectMaxRetries: 0\<close>.\<close>

definition default_client :: ta where
  "default_client =
    TAWebsocket sample_env ''ws://localhost:2053'' ''Overlay'' None no_options (\<lambda>r. sample_match)"

definition retry0_client :: ta where
  "retry0_client =
    TAWebsocket sample_env ''ws://localhost:2053'' ''Overlay'' None
      (no_options\<lparr>opt_autoReconnectMaxRetries := Some 0\<rparr>) (\<lambda>r. sample_match)"

text \<open>A client built with \<^verbatim>\<open>autoReconnect: false\<close> and \<^verbatim>\<open>autoReconnectMaxRetries: 0\<close>.\<close>

definition noreconnect_client :: ta where
  "noreconnect_client =
    TAWebsocket sample_env ''ws://localhost:2053'' ''Overlay'' None
      (no_options\<lparr>opt_autoReconnect := Some False, opt_autoReconnectMaxRetries := Some 0\<rparr>)
      (\<lambda>r. sample_match)"

text \<open>
  The default client once its transport has opened, once the handshake has completed, and
  the client with the retry limit 0 after its handshake.
\<close>

definition opened_client :: ta where
  "opened_client = transport_opened sample_env default_client"

definition connected_client :: ta where
  "connected_client = handlePacket sample_env sample_connect_packet opened_client"

definition retry0_connected :: ta where
  "retry0_connected =
    handlePacket sample_env sample_connect_packet (transport_opened sample_env retry0_client)"

section \<open>Frame lemmas\<close>

lemma emit_fields [simp]:
  "trace (emit e s) = trace s @ [e]"
  "ws (emit e s) = ws s"
  "taClient (emit e s) = taClient s"
  "config (emit e s) = config s"
  "reconnectAttempts (emit e s) = reconnectAttempts s"
  "sendToSocket (emit e s) = sendToSocket s"
  "objects (emit e s) = objects s"
  "uuid_seed (emit e s) = uuid_seed s"
  "url (emit e s) = url s"
  "password (emit e s) = password s"
  by (simp_all add: emit_def)

lemma sendPacket_trace:
  "trace (sendPacket E p s) =
     trace s @ [Transmit (sendToSocket s)
                  (serializeBinary E (Packet (packet_id p) (guid (Self (taClient s))) (payload p)))]"
  by (simp add: sendPacket_def Let_def)

lemma sendPacket_fields [simp]:
  "ws (sendPacket E p s) = ws s"
  "taClient (sendPacket E p s) = taClient s"
  "config (sendPacket E p s) = config s"
  "reconnectAttempts (sendPacket E p s) = reconnectAttempts s"
  "sendToSocket (sendPacket E p s) = sendToSocket s"
  "objects (sendPacket E p s) = objects s"
  "uuid_seed (sendPacket E p s) = uuid_seed s"
  by (simp_all add: sendPacket_def Let_def)


lemma open_socket_send_returns:
  "ws s = Some OPEN \<Longrightarrow> sendToSocket_throws s = None"
  by (simp add: sendToSocket_throws_def split: transmit.splits)



lemma loadSong_fields [simp]:
  "ws (snd (loadSong E songName hash difficulty r s)) = ws s"
  "taClient (snd (loadSong E songName hash difficulty r s)) = taClient s"
  "config (snd (loadSong E songName hash difficulty r s)) = config s"
  "reconnectAttempts (snd (loadSong E songName hash difficulty r s)) = reconnectAttempts s"
  "sendToSocket (snd (loadSong E songName hash difficulty r s)) = sendToSocket s"
  by (simp_all add: loadSong_def forwardPacket_def Let_def split: option.splits)



section \<open>The reconnect counter\<close>

text \<open>
  The counter starts at \<open>-1\<close> and the only statement that changes it,
  \<^verbatim>\<open>if (this.reconnectAttempts !== -1) this.reconnectAttempts++\<close>, does nothing at \<open>-1\<close>:
  no event and no method ever moves it.
\<close>

lemma onclose_reconnectAttempts:
  "reconnectAttempts s = - 1 \<Longrightarrow> reconnectAttempts (onclose s) = - 1"
  by (simp add: onclose_def Let_def split: option.splits)

lemma handlePacket_reconnectAttempts [simp]:
  "reconnectAttempts (handlePacket E p s) = reconnectAttempts s"
  by (simp add: handlePacket_def Let_def split: payload.splits option.splits)

lemma init_reconnectAttempts [simp]:
  "reconnectAttempts (init s) = reconnectAttempts s"
  by (simp add: init_def)

lemma step_reconnectAttempts:
  "reconnectAttempts s = - 1 \<Longrightarrow> reconnectAttempts (step E s i) = - 1"
proof (cases i)
  case TransportClose
  assume "reconnectAttempts s = - 1"
  then show ?thesis
    using TransportClose by (simp add: transport_closed_def onclose_reconnectAttempts)
next
  case (TransportMessage d)
  assume "reconnectAttempts s = - 1"
  then show ?thesis
    using TransportMessage by (simp add: onmessage_def split: msg_data.splits sum.splits)
next
  case (TimerFired t)
  assume "reconnectAttempts s = - 1"
  then show ?thesis
    using TimerFired
    by (simp add: timer_fired_def connectTimeout_def updateMatch_def sendEvent_def
          split: timer.splits option.splits)
qed (simp_all add: transport_opened_def onopen_def ClientConnect_def Let_def onerror_def
       close_def socket_close_def sendEvent_def createMatch_def updateMatch_def closeMatch_def
       returnToMenu_def forwardPacket_def split: option.splits)

lemma run_reconnectAttempts:
  "reconnectAttempts s = - 1 \<Longrightarrow> reconnectAttempts (run E s ins) = - 1"
  unfolding run_def
  by (induction ins arbitrary: s) (simp_all add: step_reconnectAttempts)

lemma TAWebsocket_reconnectAttempts:
  "reconnectAttempts (TAWebsocket E u n pw opts heap) = - 1"
  by (simp add: TAWebsocket_def Let_def)

lemma transport_closed_schedules:
  "autoReconnect (config s) \<Longrightarrow> reconnectAttempts s < autoReconnectMaxRetries (config s)
   \<Longrightarrow> last (trace (transport_closed s)) = SetTimeout Reconnect (autoReconnectInterval (config s))"
  by (simp add: transport_closed_def onclose_def Let_def split: option.splits)

text \<open>With \<^verbatim>\<open>autoReconnect\<close> disabled a transport close sets no timer at all.\<close>

lemma no_reconnect_when_disabled:
  "\<not> autoReconnect (config s) \<Longrightarrow>
     (\<forall>t d. SetTimeout t d \<notin> set (drop (length (trace s)) (trace (transport_closed s))))"
  by (auto simp add: transport_closed_def onclose_def Let_def Client_reset_def split: option.splits)

text \<open>The calls a transport close makes, and what they depend on.\<close>

lemma close_fields [simp]:
  "config (close E s) = config s"
  "taClient (close E s) = taClient s"
  "reconnectAttempts (close E s) = reconnectAttempts s"
  by (simp_all add: close_def socket_close_def sendEvent_def)

lemma transport_closed_calls:
  "\<exists>pre. drop (length (trace s)) (trace (transport_closed s)) =
       pre @ [ClientReset] @
         (if autoReconnect (config s) \<and> reconnectAttempts s < autoReconnectMaxRetries (config s)
          then [SetTimeout Reconnect (autoReconnectInterval (config s))] else [])
      \<and> set pre \<subseteq> range ConsoleError"
  by (auto simp add: transport_closed_def onclose_def Client_reset_def Let_def split: option.splits)

lemma transport_closed_calls_cong:
  "config s' = config s \<Longrightarrow> taClient s' = taClient s
   \<Longrightarrow> reconnectAttempts s' = reconnectAttempts s
   \<Longrightarrow> drop (length (trace s')) (trace (transport_closed s')) =
       drop (length (trace s)) (trace (transport_closed s))"
  by (simp add: transport_closed_def onclose_def Client_reset_def Let_def split: option.splits)

section \<open>Reconnect policy\<close>

text \<open>
  C1 (the code departs from the claim). The claim: with \<^verbatim>\<open>autoReconnect\<close> enabled and
  \<^verbatim>\<open>autoReconnectMaxRetries = N \<ge> 0\<close>, after N+1 transport closes the close handler
  schedules no further reconnect. The code: in every state a client can reach from its
  constructor, through any sequence of the events above
  (so after any number of closes), the counter is still \<open>-1\<close>, and with \<^verbatim>\<open>autoReconnect\<close>
  enabled and a limit \<open>N \<ge> 0\<close> the next transport close schedules a reconnect again.
\<close>

theorem reconnect_limit_never_reached:
  assumes "s = run E (TAWebsocket E u n pw opts heap) ins"
    and "autoReconnect (config s)"
    and "0 \<le> autoReconnectMaxRetries (config s)"
  shows "reconnectAttempts s = - 1
    \<and> last (trace (transport_closed s)) = SetTimeout Reconnect (autoReconnectInterval (config s))"
proof -
  have a: "reconnectAttempts s = - 1"
    using assms(1) by (simp add: run_reconnectAttempts TAWebsocket_reconnectAttempts)
  with assms(3) have "reconnectAttempts s < autoReconnectMaxRetries (config s)"
    by simp
  with assms(2) a show ?thesis
    by (simp add: transport_closed_schedules)
qed

text \<open>
  C1 at \<open>N = 0\<close>: two transport closes have happened (one more than N+1), and the third
  close schedules a reconnect after the default 10000 ms.
\<close>

theorem reconnect_limit_never_reached_witness:
  "reconnectAttempts (run sample_env retry0_client [TransportClose, TransportClose]) = - 1
   \<and> last (trace (transport_closed (run sample_env retry0_client [TransportClose, TransportClose])))
       = SetTimeout Reconnect 10000"
  using reconnect_limit_never_reached
    [of "run sample_env retry0_client [TransportClose, TransportClose]" sample_env
        "''ws://localhost:2053''" "''Overlay''" None
        "no_options\<lparr>opt_autoReconnectMaxRetries := Some 0\<rparr>" "\<lambda>r. sample_match"
        "[TransportClose, TransportClose]"]
  by (simp add: retry0_client_def run_def transport_closed_def onclose_def TAWebsocket_def
        loadConfig_def no_options_def init_def emit_def Client_def Client_reset_def Let_def)

text \<open>
  C2 (as stated, refuted). The claim: after a caller-initiated \<^verbatim>\<open>close()\<close> no reconnect is
  ever scheduled by the transport close that follows, whatever the configuration. A client
  built with \<^verbatim>\<open>autoReconnectMaxRetries: 0\<close> whose transport has opened calls \<^verbatim>\<open>close()\<close>;
  handling the transport close that follows resets the store and schedules a reconnect.
\<close>

theorem close_is_not_terminal:
  "drop (length (trace (close sample_env (transport_opened sample_env retry0_client))))
     (trace (transport_closed (close sample_env (transport_opened sample_env retry0_client))))
   = [ClientReset, SetTimeout Reconnect 10000]"
  by (simp add: retry0_client_def close_def socket_close_def sendEvent_def sendPacket_def
        transport_opened_def onopen_def ClientConnect_def transport_closed_def onclose_def
        TAWebsocket_def loadConfig_def no_options_def init_def emit_def Client_def
        Client_reset_def Let_def sample_env_def)

text \<open>
  C2 (amended). A caller-initiated \<^verbatim>\<open>close()\<close> is not terminal: the transport close that
  follows it is handled exactly like a transport close the caller did not ask for. The
  calls the handler makes are the same with and without the preceding \<^verbatim>\<open>close()\<close>: console
  output at most, then the reset of the store, then one reconnect timer with the configured
  interval exactly when the handler's own reconnect condition holds (\<^verbatim>\<open>autoReconnect\<close>
  enabled and its retry test passed), and nothing else. With \<^verbatim>\<open>autoReconnect\<close> disabled no
  timer of any kind is set.
\<close>

theorem close_then_transport_close:
  "(\<exists>pre. drop (length (trace (close E s))) (trace (transport_closed (close E s))) =
       pre @ [ClientReset] @
         (if autoReconnect (config s) \<and> reconnectAttempts s < autoReconnectMaxRetries (config s)
          then [SetTimeout Reconnect (autoReconnectInterval (config s))] else [])
      \<and> set pre \<subseteq> range ConsoleError)
   \<and> drop (length (trace (close E s))) (trace (transport_closed (close E s))) =
       drop (length (trace s)) (trace (transport_closed s))
   \<and> (\<not> autoReconnect (config s) \<longrightarrow>
        (\<forall>t d. SetTimeout t d
           \<notin> set (drop (length (trace (close E s))) (trace (transport_closed (close E s))))))"
proof (intro conjI impI)
  show calls: "\<exists>pre. drop (length (trace (close E s))) (trace (transport_closed (close E s))) =
       pre @ [ClientReset] @
         (if autoReconnect (config s) \<and> reconnectAttempts s < autoReconnectMaxRetries (config s)
          then [SetTimeout Reconnect (autoReconnectInterval (config s))] else [])
      \<and> set pre \<subseteq> range ConsoleError"
    using transport_closed_calls [of "close E s"] by (simp only: close_fields)
  show "drop (length (trace (close E s))) (trace (transport_closed (close E s))) =
       drop (length (trace s)) (trace (transport_closed s))"
    by (rule transport_closed_calls_cong) simp_all
  assume off: "\<not> autoReconnect (config s)"
  from calls off obtain pre where
    new: "drop (length (trace (close E s))) (trace (transport_closed (close E s))) = pre @ [ClientReset]"
    and pre: "set pre \<subseteq> range ConsoleError"
    by auto
  show "\<forall>t d. SetTimeout t d
           \<notin> set (drop (length (trace (close E s))) (trace (transport_closed (close E s))))"
    using pre unfolding new by auto
qed

text \<open>
  C2 (amended) on two clients whose transport has opened: with \<^verbatim>\<open>autoReconnect: false\<close> the
  close that follows \<^verbatim>\<open>close()\<close> only resets the store; with \<^verbatim>\<open>autoReconnect\<close> enabled and
  the handshake done (retry limit 0) it resets the store and sets the reconnect timer.
\<close>

theorem close_then_transport_close_witness:
  "\<not> autoReconnect (config (transport_opened sample_env noreconnect_client))
   \<and> drop (length (trace (close sample_env (transport_opened sample_env noreconnect_client))))
       (trace (transport_closed (close sample_env (transport_opened sample_env noreconnect_client))))
     = [ClientReset]
   \<and> drop (length (trace (close sample_env retry0_connected)))
       (trace (transport_closed (close sample_env retry0_connected)))
     = [ClientReset, SetTimeout Reconnect 10000]"
  using close_then_transport_close [of sample_env "transport_opened sample_env noreconnect_client"]
    close_then_transport_close [of sample_env retry0_connected]
  by (simp add: noreconnect_client_def retry0_connected_def retry0_client_def
        sample_connect_packet_def sample_connect_response_def sample_env_def no_options_def
        close_def socket_close_def sendEvent_def sendPacket_def emit_def
        transport_closed_def onclose_def Client_reset_def
        TAWebsocket_def loadConfig_def init_def Client_def Client_init_def
        transport_opened_def onopen_def ClientConnect_def handlePacket_def Let_def)

section \<open>Dispatching inbound packets\<close>

text \<open>
  C3. For every packet given to \<^verbatim>\<open>handlePacket\<close>: if it is a Connect response with status
  Success and a non-empty self id and the client is not yet connected, the state store is
  initialised with the response payload (which turns the connected flag from false to
  true) and then handed the packet; if the client is already connected, the store is not
  initialised again and is only handed the packet; and in every case the packet is handed
  to the store's generic \<^verbatim>\<open>handlePacket\<close> as the last call, any initialisation coming before
  it, the generic handler working on the store as the initialisation left it.
\<close>

theorem handlePacket_handshake_then_handoff:
  "(payload p = Response r \<and> connect r = Some cr \<and> resp_type r = Success
      \<and> self_guid cr \<noteq> [] \<and> \<not> isConnected (taClient s)
    \<longrightarrow> trace (handlePacket E p s) = trace s @ [ClientInit cr, ClientHandlePacket p]
        \<and> isConnected (Client_init cr (taClient s))
        \<and> State (Client_init cr (taClient s)) = Some (state cr)
        \<and> taClient (handlePacket E p s) = client_handlePacket E p (Client_init cr (taClient s)))
   \<and> (isConnected (taClient s)
    \<longrightarrow> trace (handlePacket E p s) = trace s @ [ClientHandlePacket p]
        \<and> taClient (handlePacket E p s) = client_handlePacket E p (taClient s))
   \<and> (\<exists>pre c. trace (handlePacket E p s) = trace s @ pre @ [ClientHandlePacket p]
        \<and> (pre = [] \<and> c = taClient s
            \<or> (\<exists>cr'. pre = [ClientInit cr'] \<and> c = Client_init cr' (taClient s)))
        \<and> taClient (handlePacket E p s) = client_handlePacket E p c)"
  by (auto simp add: handlePacket_def Client_init_def Let_def split: payload.splits option.splits)

text \<open>
  C3 on the sample client: the first successful Connect response initialises the store and
  is handed over, the second one is only handed over.
\<close>

theorem handlePacket_handshake_then_handoff_witness:
  "\<not> isConnected (taClient opened_client)
   \<and> trace (handlePacket sample_env sample_connect_packet opened_client) =
       trace opened_client @ [ClientInit sample_connect_response, ClientHandlePacket sample_connect_packet]
   \<and> isConnected (taClient connected_client)
   \<and> trace (handlePacket sample_env sample_connect_packet connected_client) =
       trace connected_client @ [ClientHandlePacket sample_connect_packet]"
  using handlePacket_handshake_then_handoff
    [of sample_connect_packet "\<lparr>resp_type = Success, connect = Some sample_connect_response\<rparr>"
        sample_connect_response opened_client sample_env]
    handlePacket_handshake_then_handoff
    [of sample_connect_packet "\<lparr>resp_type = Success, connect = Some sample_connect_response\<rparr>"
        sample_connect_response connected_client sample_env]
  by (simp add: connected_client_def opened_client_def default_client_def sample_connect_packet_def
        sample_connect_response_def sample_env_def no_options_def
        TAWebsocket_def loadConfig_def init_def Client_def Client_init_def
        transport_opened_def onopen_def ClientConnect_def handlePacket_def Let_def)

section \<open>Caller-initiated close\<close>




section \<open>Transport close\<close>

text \<open>
  C5. On every transport-close event the store is reset, which clears the connected flag,
  and the reset comes before the reconnect timer in the order of calls: whatever precedes
  the reset is console output only, and the reconnect timer, when the policy sets one, is
  the call right after it.
\<close>

theorem transport_close_resets_before_reconnect:
  "(\<exists>pre. trace (transport_closed s) =
       trace s @ pre @ [ClientReset] @
         (if autoReconnect (config s) \<and> reconnectAttempts s < autoReconnectMaxRetries (config s)
          then [SetTimeout Reconnect (autoReconnectInterval (config s))] else [])
      \<and> set pre \<subseteq> range ConsoleError)
   \<and> taClient (transport_closed s) = Client_reset (taClient s)
   \<and> \<not> isConnected (taClient (transport_closed s))"
  by (auto simp add: transport_closed_def onclose_def Client_reset_def Let_def split: option.splits)

text \<open>
  C5 on a connected client with the retry limit 0: the close resets the store, then sets
  the reconnect timer, and the client is no longer connected.
\<close>

theorem transport_close_resets_before_reconnect_witness:
  "isConnected (taClient retry0_connected)
   \<and> trace (transport_closed retry0_connected) =
       trace retry0_connected @ [ClientReset, SetTimeout Reconnect 10000]
   \<and> \<not> isConnected (taClient (transport_closed retry0_connected))"
  using transport_close_resets_before_reconnect [of retry0_connected]
  by (simp add: retry0_connected_def retry0_client_def sample_connect_packet_def
        sample_connect_response_def sample_env_def no_options_def
        transport_closed_def onclose_def Client_reset_def
        TAWebsocket_def loadConfig_def init_def Client_def Client_init_def
        transport_opened_def onopen_def ClientConnect_def handlePacket_def Let_def)

section \<open>Inbound messages\<close>

text \<open>
  C6. When decoding an inbound binary frame fails, the message handler logs the error and
  returns normally; the state is the one before but for that console line, so the frame is
  dropped (the store sees no packet), the transport is not closed and nothing is sent. A
  non-binary message changes nothing but an optional console warning. For every message
  the handler returns normally. (Exceptions that the store's own handler might throw are
  outside this model; the \<^verbatim>\<open>try\<close> block would catch them as well.)
\<close>

theorem onmessage_decode_failure:
  "(deserializeBinary E b = Inl err \<longrightarrow>
      onmessage E (ArrayBuffer b) s = Inr (s\<lparr>trace := trace s @ [ConsoleError err]\<rparr>))
   \<and> onmessage E (Text t) s =
       Inr (if logging (config s) then s\<lparr>trace := trace s @ [ConsoleWarn t]\<rparr> else s)
   \<and> (\<exists>s'. onmessage E d s = Inr s')"
  by (auto simp add: onmessage_def emit_def split: msg_data.splits sum.splits)

text \<open>
  C6 on the sample client: the empty buffer does not decode and is logged and dropped; a
  text message is ignored (logging is off by default).
\<close>

theorem onmessage_decode_failure_witness:
  "deserializeBinary sample_env [] = Inl (Error ''empty buffer'')
   \<and> onmessage sample_env (ArrayBuffer []) connected_client =
       Inr (connected_client\<lparr>trace := trace connected_client @ [ConsoleError (Error ''empty buffer'')]\<rparr>)
   \<and> onmessage sample_env (Text ''hello'') connected_client = Inr connected_client"
  using onmessage_decode_failure
    [of sample_env "[]" "Error ''empty buffer''" connected_client "''hello''" "Text ''hello''"]
  by (simp add: connected_client_def opened_client_def default_client_def sample_env_def
        sample_connect_packet_def sample_connect_response_def no_options_def
        TAWebsocket_def loadConfig_def init_def Client_def Client_init_def
        transport_opened_def onopen_def ClientConnect_def handlePacket_def Let_def)

section \<open>Session operations\<close>







text \<open>
  C9. Whatever sender the caller has put into a packet, what \<^verbatim>\<open>sendPacket\<close> hands to the
  transmit function is the encoding of that packet with Self's id as sender, id and
  variant unchanged; the stamping is the statement right before the transmission. The
  same holds for events, forwards and the Connect request, which all go through it.
\<close>

theorem every_send_is_stamped_with_self:
  "(\<exists>sent. trace (sendPacket E p s) =
        trace s @ [Transmit (sendToSocket s) (serializeBinary E sent)]
      \<and> packet_from sent = guid (Self (taClient s))
      \<and> packet_id sent = packet_id p \<and> payload sent = payload p)
   \<and> (\<exists>sent. trace (sendEvent E ev s) =
        trace s @ [Transmit (sendToSocket s) (serializeBinary E sent)]
      \<and> packet_from sent = guid (Self (taClient s)) \<and> payload sent = Event ev)
   \<and> (\<exists>sent. trace (forwardPacket E ids inner s) =
        trace s @ [Transmit (sendToSocket s) (serializeBinary E sent)]
      \<and> packet_from sent = guid (Self (taClient s)) \<and> payload sent = ForwardingPacket ids inner)
   \<and> (\<exists>sent. trace (ClientConnect E s) =
        trace s @ [Transmit (sendToSocket s) (serializeBinary E sent)]
      \<and> packet_from sent = guid (Self (taClient s))
      \<and> payload sent = Request (Connect (Self (taClient s)) 66 (password s)))"
proof (intro conjI)
  show "\<exists>sent. trace (sendPacket E p s) =
        trace s @ [Transmit (sendToSocket s) (serializeBinary E sent)]
      \<and> packet_from sent = guid (Self (taClient s))
      \<and> packet_id sent = packet_id p \<and> payload sent = payload p"
    by (rule exI [of _ "Packet (packet_id p) (guid (Self (taClient s))) (payload p)"])
       (simp add: sendPacket_trace)
  show "\<exists>sent. trace (sendEvent E ev s) =
        trace s @ [Transmit (sendToSocket s) (serializeBinary E sent)]
      \<and> packet_from sent = guid (Self (taClient s)) \<and> payload sent = Event ev"
    by (rule exI [of _ "Packet [] (guid (Self (taClient s))) (Event ev)"])
       (simp add: sendEvent_def sendPacket_trace)
  show "\<exists>sent. trace (forwardPacket E ids inner s) =
        trace s @ [Transmit (sendToSocket s) (serializeBinary E sent)]
      \<and> packet_from sent = guid (Self (taClient s)) \<and> payload sent = ForwardingPacket ids inner"
    by (rule exI [of _ "Packet [] (guid (Self (taClient s))) (ForwardingPacket ids inner)"])
       (simp add: forwardPacket_def sendPacket_trace)
  show "\<exists>sent. trace (ClientConnect E s) =
        trace s @ [Transmit (sendToSocket s) (serializeBinary E sent)]
      \<and> packet_from sent = guid (Self (taClient s))
      \<and> payload sent = Request (Connect (Self (taClient s)) 66 (password s))"
    by (rule exI [of _ "Packet (uuidv4 E (uuid_seed s)) (guid (Self (taClient s)))
                          (Request (Connect (Self (taClient s)) 66 (password s)))"])
       (simp add: ClientConnect_def sendPacket_trace Let_def)
qed

text \<open>C9 on the sample client: a packet claiming a twelve-character sender leaves with Self's one-character id.\<close>

theorem every_send_is_stamped_with_self_witness:
  "trace (sendPacket sample_env (Packet ''p1'' ''someone else'' NoPayload) opened_client) =
     trace opened_client @ [Transmit SocketSend [1, 0]]"
  using every_send_is_stamped_with_self
    [of sample_env "Packet ''p1'' ''someone else'' NoPayload" opened_client]
  by (simp add: opened_client_def default_client_def sample_env_def no_options_def
        sendPacket_def emit_def
        TAWebsocket_def loadConfig_def init_def Client_def
        transport_opened_def onopen_def ClientConnect_def Let_def)

text \<open>
  C10. \<^verbatim>\<open>forwardPacket(ids, inner)\<close> stamps only the outer envelope with Self's id: the
  inner packet travels inside the ForwardingPacket as the caller built it, its sender
  included, and the recipient list is the given list.
\<close>

theorem forwardPacket_stamps_outer_only:
  "\<exists>outer. trace (forwardPacket E ids inner s) =
       trace s @ [Transmit (sendToSocket s) (serializeBinary E outer)]
     \<and> packet_from outer = guid (Self (taClient s))
     \<and> payload outer = ForwardingPacket ids inner
     \<and> forward_to (payload outer) = ids
     \<and> forwarded (payload outer) = inner
     \<and> packet_from (forwarded (payload outer)) = packet_from inner"
  by (rule exI [of _ "Packet [] (guid (Self (taClient s))) (ForwardingPacket ids inner)"])
     (simp add: forwardPacket_def sendPacket_trace)

text \<open>C10 on the sample client: the inner sender keeps its twelve characters.\<close>

theorem forwardPacket_stamps_outer_only_witness:
  "trace (forwardPacket sample_env [''alice''] (Packet ''p1'' ''someone else'' NoPayload) opened_client) =
     trace opened_client @ [Transmit SocketSend [1, 8, 1, 12, 0]]"
  using forwardPacket_stamps_outer_only
    [of sample_env "[''alice'']" "Packet ''p1'' ''someone else'' NoPayload" opened_client]
  by (simp add: opened_client_def default_client_def sample_env_def no_options_def
        forwardPacket_def sendPacket_def emit_def
        TAWebsocket_def loadConfig_def init_def Client_def
        transport_opened_def onopen_def ClientConnect_def Let_def)

end
